theory Spec2Isabelle
  imports Complex_Main "HOL-Library.Char_ord" "HOL-Library.List_Lexorder"
begin

section \<open>The reactive query pipeline of app.py\<close>

text \<open>
  app.py keeps six module-level reactive variables and three procedures that Solara runs
  as effects: \<^verbatim>\<open>load_country_list\<close>, \<^verbatim>\<open>update_country_stats\<close> and
  \<^verbatim>\<open>load_filtered_data\<close>. Each procedure opens a DuckDB connection, runs one SQL
  statement over the remote table and writes some of the variables. The embedding passes
  the variables as a record and the history of everything a procedure did (prints,
  connections, statements, writes) as a list of events.
\<close>

subsection \<open>Rows of the table\<close>

text \<open>
  One row of the table behind \<^verbatim>\<open>DB_SOURCE\<close>, with the five columns the statements
  select. Latitude and longitude are only carried from the table to the result.
\<close>

record city =
  name :: string
  country :: string
  population :: int
  latitude :: real
  longitude :: real

subsection \<open>The reactive variables\<close>

record pipeline_state =
  all_countries :: "string list"
  selected_country :: string
  population_range :: "int \<times> int"
  max_population_in_country :: int
  data_df :: "city list"
  is_loading :: bool

text \<open>The values the module gives the variables when it is loaded (lines 17 to 26).\<close>

definition initial_state :: pipeline_state where
  "initial_state =
     \<lparr>all_countries = [], selected_country = [], population_range = (0, 1000000),
      max_population_in_country = 1000000, data_df = [], is_loading = False\<rparr>"

subsection \<open>Failures, statements and events\<close>

text \<open>An exception, with the text it prints as.\<close>

datatype failure = Failure string

text \<open>
  The texts the module sends to DuckDB. In the first three the strings are the values
  the SQL string literals denote and the integers the bounds of \<^verbatim>\<open>BETWEEN\<close>. The
  last two are the texts of the second and the third f-string when a quote of the country
  stands alone (see \<open>sql_literal\<close>): the country is kept as it was put into the text.
\<close>

datatype query =
    List_countries
  | Max_population string
  | Filtered_cities string int int
  | Spliced_max_population string
  | Spliced_filtered_cities string int int

text \<open>The five \<^verbatim>\<open>print\<close> calls, with the values their f-strings format.\<close>

datatype message =
    Loading_country_list
  | Error_loading_countries failure
  | Error_getting_stats failure
  | Querying string int int
  | Error_executing_query failure

text \<open>A call of \<^verbatim>\<open>set\<close> on one of the reactive variables.\<close>

datatype assignment =
    W_all_countries "string list"
  | W_selected_country string
  | W_population_range "int \<times> int"
  | W_max_population_in_country int
  | W_data_df "city list"
  | W_is_loading bool

datatype event =
    Printed message
  | Connected nat
  | Executed nat query
  | Closed nat
  | Assigned assignment

text \<open>How a procedure ends: it returns, or an exception leaves it.\<close>

datatype outcome = Finished | Raised failure

type_synonym run = "pipeline_state \<times> event list"

subsection \<open>The data source\<close>

text \<open>
  What the world outside the module does when it is asked: \<^verbatim>\<open>duckdb.connect\<close> may
  raise; \<^verbatim>\<open>install_extension\<close> or \<^verbatim>\<open>load_extension\<close> may raise (the connection
  exists by then); a statement over \<^verbatim>\<open>DB_SOURCE\<close> raises or reads the rows of the
  table. The last two fields are what DuckDB makes of the second and of the third text
  when a quote of the country stands alone and the text is not the statement the module
  wrote: for a name with one apostrophe the text does not parse and the call raises; for
  a country that ends in a quote and two hyphens the rest of the line is a comment and
  the call returns.
\<close>

record backend =
  connect_failure :: "failure option"
  extension_failure :: "failure option"
  source_table :: "failure + city list"
  spliced_max_population :: "string \<Rightarrow> failure + int option"
  spliced_filtered_cities :: "string \<Rightarrow> int \<Rightarrow> int \<Rightarrow> failure + city list"

subsection \<open>Writes, prints and connections\<close>

fun apply_write :: "assignment \<Rightarrow> pipeline_state \<Rightarrow> pipeline_state" where
  "apply_write (W_all_countries v) s = s\<lparr>all_countries := v\<rparr>"
| "apply_write (W_selected_country v) s = s\<lparr>selected_country := v\<rparr>"
| "apply_write (W_population_range v) s = s\<lparr>population_range := v\<rparr>"
| "apply_write (W_max_population_in_country v) s = s\<lparr>max_population_in_country := v\<rparr>"
| "apply_write (W_data_df v) s = s\<lparr>data_df := v\<rparr>"
| "apply_write (W_is_loading v) s = s\<lparr>is_loading := v\<rparr>"

text \<open>
  \<^verbatim>\<open>variable.set(value)\<close>: \<^verbatim>\<open>solara.reactive\<close> stores the value; nothing in the
  module wraps or checks the call.
\<close>

fun reactive_set :: "assignment \<Rightarrow> run \<Rightarrow> run" where
  "reactive_set w (s, tr) = (apply_write w s, tr @ [Assigned w])"

fun print :: "message \<Rightarrow> run \<Rightarrow> run" where
  "print m (s, tr) = (s, tr @ [Printed m])"

fun executed :: "nat \<Rightarrow> query \<Rightarrow> run \<Rightarrow> run" where
  "executed con q (s, tr) = (s, tr @ [Executed con q])"

fun close :: "nat \<Rightarrow> run \<Rightarrow> run" where
  "close con (s, tr) = (s, tr @ [Closed con])"

text \<open>Connections are numbered in the order in which they are opened.\<close>

fun is_connected :: "event \<Rightarrow> bool" where
  "is_connected (Connected _) = True"
| "is_connected _ = False"

definition fresh_connection :: "event list \<Rightarrow> nat" where
  "fresh_connection tr = length (filter is_connected tr)"

text \<open>
  \<^verbatim>\<open>get_db_connection\<close> (lines 32 to 37): connect, install and load httpfs, return the
  connection. When the extension calls raise, the connection stays open.
\<close>

fun get_db_connection :: "backend \<Rightarrow> run \<Rightarrow> (failure + nat) \<times> run" where
  "get_db_connection be (s, tr) =
     (case connect_failure be of
        Some e \<Rightarrow> (Inl e, (s, tr))
      | None \<Rightarrow>
          (let con = fresh_connection tr; tr1 = tr @ [Connected con] in
           case extension_failure be of
             Some e \<Rightarrow> (Inl e, (s, tr1))
           | None \<Rightarrow> (Inr con, (s, tr1))))"

subsection \<open>The SQL text and what it selects\<close>

text \<open>
  The f-strings put the country between single quotes: \<^verbatim>\<open>WHERE country = '{country}'\<close>.
  DuckDB reads two quotes in a row inside a literal as one quote character, and one
  quote alone as the end of the literal. \<open>sql_literal c\<close> is the string that the
  literal denotes when every quote of \<open>c\<close> is one of such a pair, so that all of \<open>c\<close>
  stays inside the literal, and \<open>None\<close> when a quote of \<open>c\<close> stands alone: the text is
  then not this statement any more. The bounds are integers and format as integers.
\<close>

definition quote :: char where
  "quote = CHR 0x27"

fun sql_literal :: "string \<Rightarrow> string option" where
  "sql_literal [] = Some []"
| "sql_literal [x] = (if x = quote then None else Some [x])"
| "sql_literal (x # y # cs) =
     (if x = quote
      then (if y = quote then map_option ((#) quote) (sql_literal cs) else None)
      else map_option ((#) x) (sql_literal (y # cs)))"

text \<open>\<^verbatim>\<open>SELECT DISTINCT country FROM ... ORDER BY country\<close>, one string for each row.\<close>

definition list_countries :: "city list \<Rightarrow> string list" where
  "list_countries rows = sort (remdups (map country rows))"

text \<open>
  \<^verbatim>\<open>SELECT MAX(population) FROM ... WHERE country = '...'\<close>, the one cell of the one
  row: NULL (\<open>None\<close>) when no row matches.
\<close>

definition max_population :: "city list \<Rightarrow> string \<Rightarrow> int option" where
  "max_population rows lit =
     (case filter (\<lambda>r. country r = lit) rows of
        [] \<Rightarrow> None
      | r # rs \<Rightarrow> Some (fold max (map population rs) (population r)))"

text \<open>
  \<^verbatim>\<open>SELECT name, country, population, latitude, longitude FROM ... WHERE country = '...'
  AND population BETWEEN {pop_min} AND {pop_max} ORDER BY population DESC LIMIT 500\<close>.
\<close>

definition filtered_cities :: "city list \<Rightarrow> string \<Rightarrow> int \<Rightarrow> int \<Rightarrow> city list" where
  "filtered_cities rows lit pop_min pop_max =
     take 500
       (sort_key (\<lambda>r. - population r)
          (filter (\<lambda>r. country r = lit \<and> pop_min \<le> population r \<and> population r \<le> pop_max) rows))"

text \<open>
  The text of the second and of the third f-string for a country, and what the call on
  it gives: \<^verbatim>\<open>con.sql(...).fetchone()[0]\<close> and \<^verbatim>\<open>con.sql(...).df()\<close>.
\<close>

definition max_population_text :: "string \<Rightarrow> query" where
  "max_population_text cn =
     (case sql_literal cn of
        None \<Rightarrow> Spliced_max_population cn
      | Some lit \<Rightarrow> Max_population lit)"

definition filtered_cities_text :: "string \<Rightarrow> int \<Rightarrow> int \<Rightarrow> query" where
  "filtered_cities_text cn pop_min pop_max =
     (case sql_literal cn of
        None \<Rightarrow> Spliced_filtered_cities cn pop_min pop_max
      | Some lit \<Rightarrow> Filtered_cities lit pop_min pop_max)"

definition fetch_max_population :: "backend \<Rightarrow> string \<Rightarrow> failure + int option" where
  "fetch_max_population be cn =
     (case sql_literal cn of
        None \<Rightarrow> spliced_max_population be cn
      | Some lit \<Rightarrow>
          (case source_table be of
             Inl e \<Rightarrow> Inl e
           | Inr rows \<Rightarrow> Inr (max_population rows lit)))"

definition fetch_filtered_cities ::
    "backend \<Rightarrow> string \<Rightarrow> int \<Rightarrow> int \<Rightarrow> failure + city list" where
  "fetch_filtered_cities be cn pop_min pop_max =
     (case sql_literal cn of
        None \<Rightarrow> spliced_filtered_cities be cn pop_min pop_max
      | Some lit \<Rightarrow>
          (case source_table be of
             Inl e \<Rightarrow> Inl e
           | Inr rows \<Rightarrow> Inr (filtered_cities rows lit pop_min pop_max)))"

subsection \<open>The three effects\<close>

text \<open>
  \<^verbatim>\<open>load_country_list\<close> (lines 39 to 56). Everything from the connection on is inside
  \<^verbatim>\<open>try\<close>; \<^verbatim>\<open>con.close()\<close> is the last statement of the \<^verbatim>\<open>try\<close> body, and
  the handler prints.
\<close>

definition load_country_list :: "backend \<Rightarrow> run \<Rightarrow> outcome \<times> run" where
  "load_country_list be r =
     (case get_db_connection be (print Loading_country_list r) of
        (Inl e, r1) \<Rightarrow> (Finished, print (Error_loading_countries e) r1)
      | (Inr con, r1) \<Rightarrow>
          (let r2 = executed con List_countries r1 in
           case source_table be of
             Inl e \<Rightarrow> (Finished, print (Error_loading_countries e) r2)
           | Inr rows \<Rightarrow>
               (let country_list = list_countries rows;
                    r3 = reactive_set (W_all_countries country_list) r2;
                    r4 = (if ''USA'' \<in> set country_list
                          then reactive_set (W_selected_country ''USA'') r3
                          else (case country_list of
                                  [] \<Rightarrow> r3
                                | first # _ \<Rightarrow> reactive_set (W_selected_country first) r3))
                in (Finished, close con r4))))"

text \<open>
  \<^verbatim>\<open>update_country_stats\<close> (lines 58 to 79). The connection is made before
  \<^verbatim>\<open>try\<close>; the text is built and run inside \<^verbatim>\<open>try\<close>; \<^verbatim>\<open>if max_pop:\<close> is false
  for NULL and for 0; the handler prints; \<^verbatim>\<open>finally\<close> closes the connection.
\<close>

definition update_country_stats :: "backend \<Rightarrow> run \<Rightarrow> outcome \<times> run" where
  "update_country_stats be r =
     (let cn = selected_country (fst r) in
      if cn = [] then (Finished, r)
      else
        (case get_db_connection be r of
           (Inl e, r1) \<Rightarrow> (Raised e, r1)
         | (Inr con, r1) \<Rightarrow>
             (let r2 = executed con (max_population_text cn) r1;
                  r3 = (case fetch_max_population be cn of
                          Inl e \<Rightarrow> print (Error_getting_stats e) r2
                        | Inr None \<Rightarrow> r2
                        | Inr (Some max_pop) \<Rightarrow>
                            if max_pop \<noteq> 0
                            then reactive_set (W_population_range (0, max_pop))
                                   (reactive_set (W_max_population_in_country max_pop) r2)
                            else r2)
              in (Finished, close con r3))))"

text \<open>
  \<^verbatim>\<open>load_filtered_data\<close> (lines 81 to 110). \<^verbatim>\<open>is_loading.set(True)\<close>, the print and
  the connection come before \<^verbatim>\<open>try\<close>; the text is built and run inside \<^verbatim>\<open>try\<close>;
  the handler prints and publishes the empty frame; \<^verbatim>\<open>finally\<close> closes the connection
  and clears \<^verbatim>\<open>is_loading\<close>.
\<close>

definition load_filtered_data :: "backend \<Rightarrow> run \<Rightarrow> outcome \<times> run" where
  "load_filtered_data be r =
     (let cn = selected_country (fst r);
          pop_min = fst (population_range (fst r));
          pop_max = snd (population_range (fst r))
      in
      if cn = [] then (Finished, r)
      else
        (case get_db_connection be
                (print (Querying cn pop_min pop_max) (reactive_set (W_is_loading True) r)) of
           (Inl e, r1) \<Rightarrow> (Raised e, r1)
         | (Inr con, r1) \<Rightarrow>
             (let r2 = executed con (filtered_cities_text cn pop_min pop_max) r1;
                  r3 = (case fetch_filtered_cities be cn pop_min pop_max of
                          Inl e \<Rightarrow>
                            reactive_set (W_data_df []) (print (Error_executing_query e) r2)
                        | Inr df_result \<Rightarrow> reactive_set (W_data_df df_result) r2)
              in (Finished, reactive_set (W_is_loading False) (close con r3)))))"

subsection \<open>Concrete tables and data sources\<close>

text \<open>A data source on which a text with a quote standing alone does not parse.\<close>

definition no_parse_max_population :: "string \<Rightarrow> failure + int option" where
  "no_parse_max_population cn = Inl (Failure ''Parser Error'')"

definition no_parse_filtered_cities :: "string \<Rightarrow> int \<Rightarrow> int \<Rightarrow> failure + city list" where
  "no_parse_filtered_cities cn pop_min pop_max = Inl (Failure ''Parser Error'')"

definition new_york :: city where
  "new_york = \<lparr>name = ''New York'', country = ''USA'', population = 8419000,
                latitude = 40.7, longitude = -74\<rparr>"

definition los_angeles :: city where
  "los_angeles = \<lparr>name = ''Los Angeles'', country = ''USA'', population = 3980000,
                   latitude = 34, longitude = -118.2\<rparr>"

definition paris :: city where
  "paris = \<lparr>name = ''Paris'', country = ''FRA'', population = 2148000,
             latitude = 48.9, longitude = 2.4\<rparr>"

definition three_cities :: backend where
  "three_cities =
     \<lparr>connect_failure = None, extension_failure = None,
      source_table = Inr [new_york, los_angeles, paris],
      spliced_max_population = no_parse_max_population,
      spliced_filtered_cities = no_parse_filtered_cities\<rparr>"

definition paris_only :: backend where
  "paris_only =
     \<lparr>connect_failure = None, extension_failure = None, source_table = Inr [paris],
      spliced_max_population = no_parse_max_population,
      spliced_filtered_cities = no_parse_filtered_cities\<rparr>"

definition empty_table :: backend where
  "empty_table =
     \<lparr>connect_failure = None, extension_failure = None, source_table = Inr [],
      spliced_max_population = no_parse_max_population,
      spliced_filtered_cities = no_parse_filtered_cities\<rparr>"

text \<open>A country whose only city has population 0.\<close>

definition ghost_town :: city where
  "ghost_town = \<lparr>name = ''Ghost Town'', country = ''ATA'', population = 0,
                  latitude = -77.8, longitude = 166.7\<rparr>"

definition ghost_table :: backend where
  "ghost_table =
     \<lparr>connect_failure = None, extension_failure = None, source_table = Inr [ghost_town],
      spliced_max_population = no_parse_max_population,
      spliced_filtered_cities = no_parse_filtered_cities\<rparr>"

text \<open>A country whose only row has a negative number in the population column.\<close>

definition misprint :: city where
  "misprint = \<lparr>name = ''Zeewolde'', country = ''NLD'', population = - 22000,
                latitude = 52.3, longitude = 5.5\<rparr>"

definition misprint_table :: backend where
  "misprint_table =
     \<lparr>connect_failure = None, extension_failure = None, source_table = Inr [misprint],
      spliced_max_population = no_parse_max_population,
      spliced_filtered_cities = no_parse_filtered_cities\<rparr>"

text \<open>
  A country name with an apostrophe, and the same name with the apostrophe doubled, as
  SQL writes it inside a literal.
\<close>

definition ivory_coast :: string where
  "ivory_coast = ''Cote d'' @ [quote] @ ''Ivoire''"

definition ivory_coast_doubled :: string where
  "ivory_coast_doubled = ''Cote d'' @ [quote, quote] @ ''Ivoire''"

definition abidjan :: city where
  "abidjan = \<lparr>name = ''Abidjan'', country = ivory_coast, population = 4980000,
               latitude = 5.3, longitude = -4\<rparr>"

text \<open>A row that has the name with the doubled apostrophe in its country column.\<close>

definition san_pedro :: city where
  "san_pedro = \<lparr>name = ''San Pedro'', country = ivory_coast_doubled, population = 260000,
                 latitude = 4.7, longitude = -6.6\<rparr>"

definition ivory_table :: backend where
  "ivory_table =
     \<lparr>connect_failure = None, extension_failure = None,
      source_table = Inr [abidjan, san_pedro],
      spliced_max_population = no_parse_max_population,
      spliced_filtered_cities = no_parse_filtered_cities\<rparr>"

text \<open>The httpfs extension cannot be installed: \<^verbatim>\<open>install_extension\<close> raises.\<close>

definition no_extension :: backend where
  "no_extension =
     \<lparr>connect_failure = None, extension_failure = Some (Failure ''httpfs''),
      source_table = Inr [new_york, los_angeles, paris],
      spliced_max_population = no_parse_max_population,
      spliced_filtered_cities = no_parse_filtered_cities\<rparr>"

text \<open>The remote file cannot be read: every statement over it raises.\<close>

definition unreachable_source :: backend where
  "unreachable_source =
     \<lparr>connect_failure = None, extension_failure = None,
      source_table = Inl (Failure ''HTTP''),
      spliced_max_population = no_parse_max_population,
      spliced_filtered_cities = no_parse_filtered_cities\<rparr>"

text \<open>
  The page starts on the table with the two spellings: the three effects run one after
  the other, each on the variables the one before it left.
\<close>

definition ivory_listed :: run where
  "ivory_listed = snd (load_country_list ivory_table (initial_state, []))"

definition ivory_bounded :: run where
  "ivory_bounded = snd (update_country_stats ivory_table ivory_listed)"

definition ivory_published :: "outcome \<times> run" where
  "ivory_published = load_filtered_data ivory_table ivory_bounded"

subsection \<open>Predicates the properties are stated with\<close>

text \<open>The selected country is the empty string or one of the listed countries.\<close>

definition selected_country_valid :: "pipeline_state \<Rightarrow> bool" where
  "selected_country_valid s =
     (selected_country s = [] \<or> selected_country s \<in> set (all_countries s))"

text \<open>Each row has a population no larger than the row before it.\<close>

definition population_descending :: "city list \<Rightarrow> bool" where
  "population_descending xs = sorted_wrt (\<lambda>a b. population b \<le> population a) xs"

text \<open>The connections of a history that were opened and not closed.\<close>

fun connection_of :: "event \<Rightarrow> nat list" where
  "connection_of (Connected n) = [n]"
| "connection_of _ = []"

definition open_connections :: "event list \<Rightarrow> nat list" where
  "open_connections tr =
     filter (\<lambda>n. Closed n \<notin> set tr) (concat (map connection_of tr))"

text \<open>
  The first thing that goes wrong when the countries are listed on a new connection, if
  anything does: the connection, the extension, or the statement.
\<close>

definition first_failure :: "backend \<Rightarrow> failure option" where
  "first_failure be =
     (case connect_failure be of
        Some e \<Rightarrow> Some e
      | None \<Rightarrow>
          (case extension_failure be of
             Some e \<Rightarrow> Some e
           | None \<Rightarrow> (case source_table be of Inl e \<Rightarrow> Some e | Inr rows \<Rightarrow> None)))"

section \<open>Properties\<close>

subsection \<open>No country selected\<close>

text \<open>
  C9. While \<^verbatim>\<open>selected_country\<close> is the empty string, \<^verbatim>\<open>update_country_stats\<close> and
  \<^verbatim>\<open>load_filtered_data\<close> return at once: no connection, no statement, no print and no
  write, so every variable (\<^verbatim>\<open>is_loading\<close>, \<^verbatim>\<open>data_df\<close>,
  \<^verbatim>\<open>max_population_in_country\<close>, \<^verbatim>\<open>population_range\<close>) keeps its value and the
  history of events is the one before the call.
\<close>

theorem empty_selection_returns_at_once:
  assumes "selected_country s = []"
  shows "update_country_stats be (s, tr) = (Finished, s, tr)
       \<and> load_filtered_data be (s, tr) = (Finished, s, tr)"
  using assms by (simp add: update_country_stats_def load_filtered_data_def)

theorem empty_selection_returns_at_once_witness:
  "selected_country initial_state = []
   \<and> update_country_stats three_cities (initial_state, []) = (Finished, initial_state, [])
   \<and> load_filtered_data three_cities (initial_state, []) = (Finished, initial_state, [])"
proof -
  have h: "selected_country initial_state = []"
    by (simp add: initial_state_def)
  from empty_selection_returns_at_once [OF h, of three_cities "[]"] h
  show ?thesis by simp
qed

subsection \<open>What the statements select\<close>

lemma sql_literal_plain: "quote \<notin> set c \<Longrightarrow> sql_literal c = Some c"
  by (induction c rule: sql_literal.induct) auto

lemma filtered_cities_rows:
  "r \<in> set (filtered_cities rows lit pop_min pop_max) \<Longrightarrow>
   country r = lit \<and> pop_min \<le> population r \<and> population r \<le> pop_max"
  unfolding filtered_cities_def by (auto dest: in_set_takeD)

lemma filtered_cities_descending:
  "population_descending (filtered_cities rows lit pop_min pop_max)"
proof -
  let ?xs = "sort_key (\<lambda>r. - population r)
     (filter (\<lambda>r. country r = lit \<and> pop_min \<le> population r \<and> population r \<le> pop_max) rows)"
  have "sorted (map (\<lambda>r. - population r) ?xs)"
    by (rule sorted_sort_key)
  then have "sorted_wrt (\<lambda>a b. population b \<le> population a) ?xs"
    by (simp add: sorted_map)
  then have "sorted_wrt (\<lambda>a b. population b \<le> population a) (take 500 ?xs)"
    by (rule sorted_wrt_take)
  then show ?thesis
    by (simp add: population_descending_def filtered_cities_def)
qed

lemma filtered_cities_length: "length (filtered_cities rows lit pop_min pop_max) \<le> 500"
  by (simp add: filtered_cities_def)

lemma max_population_attained:
  assumes "max_population rows lit = Some m"
  shows "m \<in> population ` {r \<in> set rows. country r = lit}
       \<and> (\<forall>r \<in> set rows. country r = lit \<longrightarrow> population r \<le> m)"
proof -
  let ?ms = "filter (\<lambda>r. country r = lit) rows"
  from assms obtain r rs
    where rs: "?ms = r # rs" and m: "m = fold max (map population rs) (population r)"
    by (auto simp: max_population_def split: list.splits)
  have "Max (set (population r # map population rs))
          = fold max (map population rs) (population r)"
    by (rule Max.set_eq_fold)
  then have "m = Max (set (map population (r # rs)))"
    using m by simp
  then have mm: "m = Max (population ` set ?ms)"
    using rs by simp
  have fin: "finite (population ` set ?ms)" by simp
  have ne: "population ` set ?ms \<noteq> {}" using rs by simp
  have "m \<in> population ` set ?ms" using Max_in [OF fin ne] mm by simp
  moreover have "\<forall>x \<in> population ` set ?ms. x \<le> m" using Max_ge [OF fin] mm by simp
  ultimately show ?thesis by auto
qed

text \<open>
  What \<^verbatim>\<open>load_filtered_data\<close> does once the connection is made: it sets the flag,
  prints, connects and runs the text, in this order; it returns; the frame is the one
  the call gave, or the empty one when the call raised; and the flag is false.
\<close>

lemma load_filtered_data_connected:
  assumes "connect_failure be = None" and "extension_failure be = None"
    and "selected_country s \<noteq> []"
  shows "fst (load_filtered_data be (s, tr)) = Finished
       \<and> fst (snd (load_filtered_data be (s, tr)))
           = s\<lparr>data_df :=
                  (case fetch_filtered_cities be (selected_country s)
                          (fst (population_range s)) (snd (population_range s)) of
                     Inl e \<Rightarrow> []
                   | Inr df_result \<Rightarrow> df_result),
                is_loading := False\<rparr>
       \<and> take 4 (drop (length tr) (snd (snd (load_filtered_data be (s, tr)))))
           = [Assigned (W_is_loading True),
              Printed (Querying (selected_country s) (fst (population_range s))
                         (snd (population_range s))),
              Connected (fresh_connection tr),
              Executed (fresh_connection tr)
                (filtered_cities_text (selected_country s) (fst (population_range s))
                   (snd (population_range s)))]"
  using assms
  by (auto simp: load_filtered_data_def Let_def fresh_connection_def split: sum.splits)

subsection \<open>The published result\<close>

text \<open>
  C1, on the code. The claim: every frame that \<^verbatim>\<open>load_filtered_data\<close> publishes for
  the selected country \<open>c\<close> holds only rows of country \<open>c\<close>. The f-string puts the
  country between quotes as it is, \<^verbatim>\<open>WHERE country = '{country}'\<close>, and DuckDB reads two
  apostrophes in a row inside a literal as one. On a table that has one row under the
  name with one apostrophe and one row under the name with two, \<^verbatim>\<open>load_country_list\<close>
  lists both names and selects the one with two (it sorts first, and USA is not listed);
  \<^verbatim>\<open>update_country_stats\<close> then takes the bounds from the row of the other name, and
  \<^verbatim>\<open>load_filtered_data\<close> publishes the row of the other name, not the row of the
  selected country.
\<close>

theorem doubled_apostrophe_publishes_other_country:
  "all_countries (fst ivory_listed) = [ivory_coast_doubled, ivory_coast]
   \<and> selected_country (fst ivory_listed) = ivory_coast_doubled
   \<and> population_range (fst ivory_bounded) = (0, 4980000)
   \<and> fst ivory_published = Finished
   \<and> selected_country (fst (snd ivory_published)) = ivory_coast_doubled
   \<and> data_df (fst (snd ivory_published)) = [abidjan]
   \<and> country abidjan = ivory_coast
   \<and> country abidjan \<noteq> selected_country (fst (snd ivory_published))"
proof -
  have listed: "ivory_listed =
      (initial_state\<lparr>all_countries := [ivory_coast_doubled, ivory_coast],
                     selected_country := ivory_coast_doubled\<rparr>,
       [Printed Loading_country_list, Connected 0, Executed 0 List_countries,
        Assigned (W_all_countries [ivory_coast_doubled, ivory_coast]),
        Assigned (W_selected_country ivory_coast_doubled), Closed 0])"
    by (simp add: ivory_listed_def load_country_list_def ivory_table_def initial_state_def
        list_countries_def abidjan_def san_pedro_def ivory_coast_def ivory_coast_doubled_def
        quote_def fresh_connection_def Let_def)
  have lit: "sql_literal ivory_coast_doubled = Some ivory_coast"
    by (simp add: ivory_coast_def ivory_coast_doubled_def quote_def)
  have differ: "ivory_coast \<noteq> ivory_coast_doubled"
    by (simp add: ivory_coast_def ivory_coast_doubled_def quote_def)
  have nonempty: "ivory_coast_doubled \<noteq> []"
    by (simp add: ivory_coast_doubled_def)
  have maxp: "max_population [abidjan, san_pedro] ivory_coast = Some 4980000"
    using differ by (simp add: max_population_def abidjan_def san_pedro_def)
  have bounded: "fst ivory_bounded =
      initial_state\<lparr>all_countries := [ivory_coast_doubled, ivory_coast],
                    selected_country := ivory_coast_doubled,
                    max_population_in_country := 4980000,
                    population_range := (0, 4980000)\<rparr>"
    using lit nonempty maxp
    by (simp add: ivory_bounded_def listed update_country_stats_def ivory_table_def
        fetch_max_population_def max_population_text_def Let_def)
  have rows: "filtered_cities [abidjan, san_pedro] ivory_coast 0 4980000 = [abidjan]"
    using differ by (simp add: filtered_cities_def abidjan_def san_pedro_def)
  obtain s2 tr2 where run2: "ivory_bounded = (s2, tr2)"
    by (cases ivory_bounded)
  have s2: "s2 =
      initial_state\<lparr>all_countries := [ivory_coast_doubled, ivory_coast],
                    selected_country := ivory_coast_doubled,
                    max_population_in_country := 4980000,
                    population_range := (0, 4980000)\<rparr>"
    using bounded by (simp add: run2)
  have fetched: "fetch_filtered_cities ivory_table ivory_coast_doubled 0 4980000
      = Inr [abidjan]"
    using lit rows by (simp add: fetch_filtered_cities_def ivory_table_def)
  have published: "fst ivory_published = Finished
      \<and> fst (snd ivory_published)
          = initial_state\<lparr>all_countries := [ivory_coast_doubled, ivory_coast],
                          selected_country := ivory_coast_doubled,
                          max_population_in_country := 4980000,
                          population_range := (0, 4980000),
                          data_df := [abidjan], is_loading := False\<rparr>"
    using load_filtered_data_connected [of ivory_table s2 tr2] nonempty fetched
    by (simp add: ivory_published_def run2 s2 ivory_table_def)
  have c: "country abidjan = ivory_coast"
    by (simp add: abidjan_def)
  have l1: "all_countries (fst ivory_listed) = [ivory_coast_doubled, ivory_coast]
      \<and> selected_country (fst ivory_listed) = ivory_coast_doubled"
    by (simp add: listed)
  have b1: "population_range (fst ivory_bounded) = (0, 4980000)"
    by (simp add: bounded)
  have p1: "selected_country (fst (snd ivory_published)) = ivory_coast_doubled
      \<and> data_df (fst (snd ivory_published)) = [abidjan]"
    using published by simp
  from l1 b1 p1 published c differ show ?thesis
    by simp
qed

text \<open>
  For a selected country that holds no quote character the claim holds: when
  \<^verbatim>\<open>load_filtered_data\<close> returns, the frame holds only rows of that country with a
  population inside the range, in descending order of population, and at most 500 of
  them.
\<close>

lemma filtered_result_for_plain_country:
  assumes "selected_country s = c" and "c \<noteq> []" and "quote \<notin> set c"
    and "population_range s = (pop_min, pop_max)"
    and "load_filtered_data be (s, tr) = (Finished, s', tr')"
  shows "(\<forall>r \<in> set (data_df s').
            country r = c \<and> pop_min \<le> population r \<and> population r \<le> pop_max)
       \<and> population_descending (data_df s')
       \<and> length (data_df s') \<le> 500"
proof -
  have lit: "sql_literal c = Some c"
    using assms(3) by (rule sql_literal_plain)
  obtain con r1 where con: "get_db_connection be
      (print (Querying c pop_min pop_max) (reactive_set (W_is_loading True) (s, tr)))
        = (Inr con, r1)"
    using assms by (auto simp: load_filtered_data_def split: prod.splits sum.splits)
  show ?thesis
  proof (cases "source_table be")
    case (Inl e)
    with assms lit con have "data_df s' = []"
      by (cases r1) (auto simp: load_filtered_data_def fetch_filtered_cities_def Let_def)
    then show ?thesis by (simp add: population_descending_def)
  next
    case (Inr rows)
    with assms lit con have "data_df s' = filtered_cities rows c pop_min pop_max"
      by (cases r1) (auto simp: load_filtered_data_def fetch_filtered_cities_def Let_def)
    then show ?thesis
      using filtered_cities_rows [of _ rows c pop_min pop_max]
        filtered_cities_descending [of rows c pop_min pop_max]
        filtered_cities_length [of rows c pop_min pop_max]
      by auto
  qed
qed

text \<open>
  The scenario of the specification: of New York, Los Angeles and Paris, the range
  0 to 8,000,000 in the USA leaves Los Angeles.
\<close>

lemma los_angeles_scenario:
  "load_filtered_data three_cities
     (initial_state\<lparr>selected_country := ''USA'', population_range := (0, 8000000)\<rparr>, [])
   = (Finished,
      initial_state\<lparr>selected_country := ''USA'', population_range := (0, 8000000),
                    data_df := [los_angeles]\<rparr>,
      [Assigned (W_is_loading True), Printed (Querying ''USA'' 0 8000000), Connected 0,
       Executed 0 (Filtered_cities ''USA'' 0 8000000), Assigned (W_data_df [los_angeles]),
       Closed 0, Assigned (W_is_loading False)])"
  by (simp add: load_filtered_data_def three_cities_def initial_state_def quote_def
      fresh_connection_def filtered_cities_def fetch_filtered_cities_def
      filtered_cities_text_def new_york_def los_angeles_def paris_def Let_def)

text \<open>
  The name with one apostrophe: on a data source where the text does not parse, the call
  raises inside \<^verbatim>\<open>try\<close>, the handler prints and publishes the empty frame, and
  \<^verbatim>\<open>finally\<close> closes the connection and clears \<^verbatim>\<open>is_loading\<close>.
\<close>

lemma lone_apostrophe_publishes_empty_frame:
  "load_filtered_data ivory_table (initial_state\<lparr>selected_country := ivory_coast\<rparr>, [])
   = (Finished,
      initial_state\<lparr>selected_country := ivory_coast\<rparr>,
      [Assigned (W_is_loading True), Printed (Querying ivory_coast 0 1000000), Connected 0,
       Executed 0 (Spliced_filtered_cities ivory_coast 0 1000000),
       Printed (Error_executing_query (Failure ''Parser Error'')),
       Assigned (W_data_df []), Closed 0, Assigned (W_is_loading False)])"
  by (simp add: load_filtered_data_def ivory_table_def initial_state_def quote_def
      fresh_connection_def fetch_filtered_cities_def filtered_cities_text_def
      no_parse_filtered_cities_def ivory_coast_def Let_def)

subsection \<open>The bounds of the slider\<close>

text \<open>
  C2, as stated, fails. The claim: for every listed country \<open>c\<close>, once \<open>c\<close> is selected
  and \<^verbatim>\<open>update_country_stats\<close> has run, \<^verbatim>\<open>max_population_in_country\<close> is the largest
  population of \<open>c\<close> and \<^verbatim>\<open>population_range\<close> is 0 to that number. For a listed country
  whose largest population is 0 the statement returns 0, \<^verbatim>\<open>if max_pop:\<close> is false, and
  both variables keep the values they had: 1,000,000 and (0, 1,000,000) here.
\<close>

theorem zero_maximum_keeps_old_bounds:
  "''ATA'' \<in> set (all_countries (initial_state\<lparr>all_countries := [''ATA'']\<rparr>))
   \<and> max_population [ghost_town] ''ATA'' = Some 0
   \<and> update_country_stats ghost_table
        (reactive_set (W_selected_country ''ATA'')
           (initial_state\<lparr>all_countries := [''ATA'']\<rparr>, []))
      = (Finished,
         initial_state\<lparr>all_countries := [''ATA''], selected_country := ''ATA'',
                       population_range := (0, 1000000),
                       max_population_in_country := 1000000\<rparr>,
         [Assigned (W_selected_country ''ATA''), Connected 0,
          Executed 0 (Max_population ''ATA''), Closed 0])
   \<and> max_population_in_country
        (fst (snd (update_country_stats ghost_table
           (reactive_set (W_selected_country ''ATA'')
              (initial_state\<lparr>all_countries := [''ATA'']\<rparr>, []))))) \<noteq> 0
   \<and> population_range
        (fst (snd (update_country_stats ghost_table
           (reactive_set (W_selected_country ''ATA'')
              (initial_state\<lparr>all_countries := [''ATA'']\<rparr>, []))))) \<noteq> (0, 0)"
  by (simp add: update_country_stats_def ghost_table_def ghost_town_def initial_state_def
      quote_def fresh_connection_def max_population_def fetch_max_population_def
      max_population_text_def Let_def)

text \<open>
  C2, amended. For every country \<open>c\<close> that is not the empty string: when the connection
  is made and the statement for \<open>c\<close> returns a number \<open>m\<close> that is not NULL and not 0,
  then after \<open>c\<close> is selected and \<^verbatim>\<open>update_country_stats\<close> has run,
  \<^verbatim>\<open>max_population_in_country\<close> is \<open>m\<close> and \<^verbatim>\<open>population_range\<close> is \<open>(0, m)\<close>, whatever
  the sign of \<open>m\<close>. The number \<open>m\<close> is positive when no quote of \<open>c\<close> stands alone and no
  population in the table is negative.
\<close>

theorem update_country_stats_sets_bounds:
  assumes "c \<noteq> []"
    and "connect_failure be = None" and "extension_failure be = None"
    and "fetch_max_population be c = Inr (Some m)" and "m \<noteq> 0"
  shows "update_country_stats be (reactive_set (W_selected_country c) (s, tr))
         = (Finished,
            s\<lparr>selected_country := c, max_population_in_country := m,
              population_range := (0, m)\<rparr>,
            tr @ [Assigned (W_selected_country c),
                  Connected (fresh_connection tr),
                  Executed (fresh_connection tr) (max_population_text c),
                  Assigned (W_max_population_in_country m),
                  Assigned (W_population_range (0, m)),
                  Closed (fresh_connection tr)])
       \<and> (sql_literal c = Some lit \<and> source_table be = Inr rows
            \<and> (\<forall>r \<in> set rows. 0 \<le> population r) \<longrightarrow> 0 < m)"
proof -
  have fresh: "fresh_connection (tr @ [Assigned (W_selected_country c)]) = fresh_connection tr"
    by (simp add: fresh_connection_def)
  have run: "update_country_stats be (reactive_set (W_selected_country c) (s, tr))
         = (Finished,
            s\<lparr>selected_country := c, max_population_in_country := m,
              population_range := (0, m)\<rparr>,
            tr @ [Assigned (W_selected_country c),
                  Connected (fresh_connection tr),
                  Executed (fresh_connection tr) (max_population_text c),
                  Assigned (W_max_population_in_country m),
                  Assigned (W_population_range (0, m)),
                  Closed (fresh_connection tr)])"
    using assms fresh by (simp add: update_country_stats_def Let_def)
  have positive: "0 < m"
    if lit: "sql_literal c = Some lit" and rows: "source_table be = Inr rows"
      and nonneg: "\<forall>r \<in> set rows. 0 \<le> population r"
  proof -
    from assms(4) lit rows have "max_population rows lit = Some m"
      by (simp add: fetch_max_population_def)
    from max_population_attained [OF this] obtain r
      where "r \<in> set rows" and "population r = m" by auto
    with nonneg have "0 \<le> m" by auto
    with assms(5) show ?thesis by simp
  qed
  from run positive show ?thesis by blast
qed

text \<open>
  The USA among New York, Los Angeles and Paris; and a country whose only row has a
  negative population, where the bounds are set to the negative number all the same.
\<close>

theorem update_country_stats_sets_bounds_witness:
  "fetch_max_population three_cities ''USA'' = Inr (Some 8419000)
   \<and> update_country_stats three_cities
        (reactive_set (W_selected_country ''USA'') (initial_state, []))
      = (Finished,
         initial_state\<lparr>selected_country := ''USA'', max_population_in_country := 8419000,
                       population_range := (0, 8419000)\<rparr>,
         [Assigned (W_selected_country ''USA''), Connected 0,
          Executed 0 (Max_population ''USA''),
          Assigned (W_max_population_in_country 8419000),
          Assigned (W_population_range (0, 8419000)), Closed 0])
   \<and> (0::int) < 8419000
   \<and> fetch_max_population misprint_table ''NLD'' = Inr (Some (- 22000))
   \<and> update_country_stats misprint_table
        (reactive_set (W_selected_country ''NLD'') (initial_state, []))
      = (Finished,
         initial_state\<lparr>selected_country := ''NLD'', max_population_in_country := - 22000,
                       population_range := (0, - 22000)\<rparr>,
         [Assigned (W_selected_country ''NLD''), Connected 0,
          Executed 0 (Max_population ''NLD''),
          Assigned (W_max_population_in_country (- 22000)),
          Assigned (W_population_range (0, - 22000)), Closed 0])"
proof -
  have h1: "''USA'' \<noteq> []" by simp
  have h2: "connect_failure three_cities = None" by (simp add: three_cities_def)
  have h3: "extension_failure three_cities = None" by (simp add: three_cities_def)
  have h4: "fetch_max_population three_cities ''USA'' = Inr (Some 8419000)"
    by (simp add: fetch_max_population_def three_cities_def max_population_def quote_def
        new_york_def los_angeles_def paris_def)
  have h5: "(8419000::int) \<noteq> 0" by simp
  have lit: "sql_literal ''USA'' = Some ''USA''" by (simp add: quote_def)
  have tab: "source_table three_cities = Inr [new_york, los_angeles, paris]"
    by (simp add: three_cities_def)
  have nonneg: "\<forall>r \<in> set [new_york, los_angeles, paris]. 0 \<le> population r"
    by (simp add: new_york_def los_angeles_def paris_def)
  have utext: "max_population_text ''USA'' = Max_population ''USA''"
    by (simp add: max_population_text_def quote_def)
  have n1: "''NLD'' \<noteq> []" by simp
  have n2: "connect_failure misprint_table = None" by (simp add: misprint_table_def)
  have n3: "extension_failure misprint_table = None" by (simp add: misprint_table_def)
  have n4: "fetch_max_population misprint_table ''NLD'' = Inr (Some (- 22000))"
    by (simp add: fetch_max_population_def misprint_table_def max_population_def quote_def
        misprint_def)
  have n5: "(- 22000::int) \<noteq> 0" by simp
  have ntext: "max_population_text ''NLD'' = Max_population ''NLD''"
    by (simp add: max_population_text_def quote_def)
  from update_country_stats_sets_bounds
         [OF h1 h2 h3 h4 h5, of initial_state "[]" "''USA''" "[new_york, los_angeles, paris]"]
       update_country_stats_sets_bounds
         [OF n1 n2 n3 n4 n5, of initial_state "[]" "''NLD''" "[misprint]"]
       h4 n4 lit tab nonneg utext ntext
  show ?thesis by (simp add: fresh_connection_def)
qed

text \<open>
  C10. When the statement of \<^verbatim>\<open>update_country_stats\<close> returns NULL or the integer 0
  for the selected country, the procedure writes no variable: the state after it is the
  state before it (\<^verbatim>\<open>max_population_in_country\<close> and \<^verbatim>\<open>population_range\<close> with it),
  and it did nothing but open the connection, run the statement and close the connection.
\<close>

theorem null_or_zero_maximum_changes_nothing:
  assumes "connect_failure be = None" and "extension_failure be = None"
    and "selected_country s \<noteq> []" and "sql_literal (selected_country s) = Some lit"
    and "source_table be = Inr rows"
    and "max_population rows lit = None \<or> max_population rows lit = Some 0"
  shows "update_country_stats be (s, tr)
         = (Finished, s,
            tr @ [Connected (fresh_connection tr),
                  Executed (fresh_connection tr) (Max_population lit),
                  Closed (fresh_connection tr)])"
  using assms
  by (auto simp: update_country_stats_def fetch_max_population_def max_population_text_def
      Let_def)

theorem null_or_zero_maximum_changes_nothing_witness:
  "max_population [ghost_town] ''ATA'' = Some 0
   \<and> update_country_stats ghost_table (initial_state\<lparr>selected_country := ''ATA''\<rparr>, [])
      = (Finished, initial_state\<lparr>selected_country := ''ATA''\<rparr>,
         [Connected 0, Executed 0 (Max_population ''ATA''), Closed 0])
   \<and> max_population [new_york, los_angeles, paris] ''DEU'' = None
   \<and> update_country_stats three_cities (initial_state\<lparr>selected_country := ''DEU''\<rparr>, [])
      = (Finished, initial_state\<lparr>selected_country := ''DEU''\<rparr>,
         [Connected 0, Executed 0 (Max_population ''DEU''), Closed 0])"
proof -
  have z: "max_population [ghost_town] ''ATA'' = Some 0"
    by (simp add: max_population_def ghost_town_def)
  have n: "max_population [new_york, los_angeles, paris] ''DEU'' = None"
    by (simp add: max_population_def new_york_def los_angeles_def paris_def)
  have a: "update_country_stats ghost_table (initial_state\<lparr>selected_country := ''ATA''\<rparr>, [])
      = (Finished, initial_state\<lparr>selected_country := ''ATA''\<rparr>,
         [Connected 0, Executed 0 (Max_population ''ATA''), Closed 0])"
    using null_or_zero_maximum_changes_nothing
      [of ghost_table "initial_state\<lparr>selected_country := ''ATA''\<rparr>" "''ATA''" "[ghost_town]" "[]"] z
    by (simp add: ghost_table_def quote_def fresh_connection_def)
  have b: "update_country_stats three_cities (initial_state\<lparr>selected_country := ''DEU''\<rparr>, [])
      = (Finished, initial_state\<lparr>selected_country := ''DEU''\<rparr>,
         [Connected 0, Executed 0 (Max_population ''DEU''), Closed 0])"
    using null_or_zero_maximum_changes_nothing
      [of three_cities "initial_state\<lparr>selected_country := ''DEU''\<rparr>" "''DEU''"
          "[new_york, los_angeles, paris]" "[]"] n
    by (simp add: three_cities_def quote_def fresh_connection_def)
  from z n a b show ?thesis by simp
qed

subsection \<open>The country list at start-up\<close>

text \<open>
  C7. When \<^verbatim>\<open>load_country_list\<close> succeeds (the connection is made and the statement
  reads the table), \<^verbatim>\<open>all_countries\<close> is the list the statement returned and
  \<^verbatim>\<open>selected_country\<close> is \<^verbatim>\<open>"USA"\<close> if that is in the list, otherwise the first
  element of the list if there is one, otherwise the value it had before.
\<close>

theorem load_country_list_default_selection:
  assumes "connect_failure be = None" and "extension_failure be = None"
    and "source_table be = Inr rows"
  shows "fst (load_country_list be (s, tr)) = Finished
       \<and> all_countries (fst (snd (load_country_list be (s, tr)))) = list_countries rows
       \<and> selected_country (fst (snd (load_country_list be (s, tr))))
           = (if ''USA'' \<in> set (list_countries rows) then ''USA''
              else (case list_countries rows of
                      [] \<Rightarrow> selected_country s
                    | first # rest \<Rightarrow> first))"
  using assms by (simp add: load_country_list_def Let_def split: list.splits)

theorem load_country_list_default_selection_witness:
  "list_countries [new_york, los_angeles, paris] = [''FRA'', ''USA'']
   \<and> fst (load_country_list three_cities (initial_state, [])) = Finished
   \<and> all_countries (fst (snd (load_country_list three_cities (initial_state, []))))
        = [''FRA'', ''USA'']
   \<and> selected_country (fst (snd (load_country_list three_cities (initial_state, []))))
        = ''USA''
   \<and> list_countries [paris] = [''FRA'']
   \<and> selected_country (fst (snd (load_country_list paris_only (initial_state, []))))
        = ''FRA''
   \<and> list_countries [] = []
   \<and> selected_country
        (fst (snd (load_country_list empty_table
                     (initial_state\<lparr>selected_country := ''FRA''\<rparr>, []))))
        = ''FRA''"
proof -
  have l3: "list_countries [new_york, los_angeles, paris] = [''FRA'', ''USA'']"
    by (simp add: list_countries_def new_york_def los_angeles_def paris_def)
  have l1: "list_countries [paris] = [''FRA'']"
    by (simp add: list_countries_def paris_def)
  have l0: "list_countries [] = []"
    by (simp add: list_countries_def)
  have a: "fst (load_country_list three_cities (initial_state, [])) = Finished
     \<and> all_countries (fst (snd (load_country_list three_cities (initial_state, []))))
          = [''FRA'', ''USA'']
     \<and> selected_country (fst (snd (load_country_list three_cities (initial_state, []))))
          = ''USA''"
    using load_country_list_default_selection
      [of three_cities "[new_york, los_angeles, paris]" initial_state "[]"] l3
    by (simp add: three_cities_def)
  have b: "selected_country (fst (snd (load_country_list paris_only (initial_state, []))))
          = ''FRA''"
    using load_country_list_default_selection [of paris_only "[paris]" initial_state "[]"] l1
    by (simp add: paris_only_def)
  have c: "selected_country
        (fst (snd (load_country_list empty_table
                     (initial_state\<lparr>selected_country := ''FRA''\<rparr>, []))))
        = ''FRA''"
    using load_country_list_default_selection
      [of empty_table "[]" "initial_state\<lparr>selected_country := ''FRA''\<rparr>" "[]"] l0
    by (simp add: empty_table_def)
  from l3 l1 l0 a b c show ?thesis by simp
qed

text \<open>
  C8, as stated, fails. The claim: when listing the countries fails, the list that the
  page reads afterwards is the empty list. The handler at lines 55 and 56 prints and
  does nothing else. When the list was loaded by an earlier run and a later run fails,
  the list of the earlier run stays.
\<close>

theorem failed_listing_keeps_old_list:
  "all_countries (fst (snd (load_country_list three_cities (initial_state, []))))
     = [''FRA'', ''USA'']
   \<and> first_failure unreachable_source = Some (Failure ''HTTP'')
   \<and> fst (load_country_list unreachable_source
             (snd (load_country_list three_cities (initial_state, [])))) = Finished
   \<and> all_countries
        (fst (snd (load_country_list unreachable_source
                     (snd (load_country_list three_cities (initial_state, []))))))
     = [''FRA'', ''USA'']
   \<and> all_countries
        (fst (snd (load_country_list unreachable_source
                     (snd (load_country_list three_cities (initial_state, []))))))
     \<noteq> []"
  by (simp add: load_country_list_def three_cities_def unreachable_source_def
      first_failure_def initial_state_def list_countries_def new_york_def los_angeles_def
      paris_def fresh_connection_def Let_def)

text \<open>
  C8, amended. When listing the countries fails (at the connection, at the extension or
  at the statement), no exception leaves \<^verbatim>\<open>load_country_list\<close>: it returns, the last
  thing it did is to print the failure, and it wrote no variable, so \<^verbatim>\<open>all_countries\<close>
  is the list it was before the run: the empty list on the run at start.
\<close>

theorem load_country_list_failure_writes_nothing:
  assumes "first_failure be = Some e"
  shows "fst (load_country_list be (s, tr)) = Finished
       \<and> fst (snd (load_country_list be (s, tr))) = s
       \<and> last (snd (snd (load_country_list be (s, tr)))) = Printed (Error_loading_countries e)"
  using assms
  by (auto simp: load_country_list_def first_failure_def Let_def
      split: option.splits sum.splits)

theorem load_country_list_failure_writes_nothing_witness:
  "first_failure unreachable_source = Some (Failure ''HTTP'')
   \<and> load_country_list unreachable_source (initial_state, [])
      = (Finished, initial_state,
         [Printed Loading_country_list, Connected 0, Executed 0 List_countries,
          Printed (Error_loading_countries (Failure ''HTTP''))])
   \<and> all_countries (fst (snd (load_country_list unreachable_source (initial_state, [])))) = []
   \<and> first_failure no_extension = Some (Failure ''httpfs'')
   \<and> load_country_list no_extension (initial_state, [])
      = (Finished, initial_state,
         [Printed Loading_country_list, Connected 0,
          Printed (Error_loading_countries (Failure ''httpfs''))])"
proof -
  have f1: "first_failure unreachable_source = Some (Failure ''HTTP'')"
    by (simp add: first_failure_def unreachable_source_def)
  have f2: "first_failure no_extension = Some (Failure ''httpfs'')"
    by (simp add: first_failure_def no_extension_def)
  have e: "all_countries initial_state = []"
    by (simp add: initial_state_def)
  have r1: "load_country_list unreachable_source (initial_state, [])
      = (Finished, initial_state,
         [Printed Loading_country_list, Connected 0, Executed 0 List_countries,
          Printed (Error_loading_countries (Failure ''HTTP''))])"
    by (simp add: load_country_list_def unreachable_source_def fresh_connection_def Let_def)
  have r2: "load_country_list no_extension (initial_state, [])
      = (Finished, initial_state,
         [Printed Loading_country_list, Connected 0,
          Printed (Error_loading_countries (Failure ''httpfs''))])"
    by (simp add: load_country_list_def no_extension_def fresh_connection_def Let_def)
  from load_country_list_failure_writes_nothing [OF f1, of initial_state "[]"]
       load_country_list_failure_writes_nothing [OF f2, of initial_state "[]"] f1 f2 e r1 r2
  show ?thesis by simp
qed

subsection \<open>Writing the selected country\<close>

text \<open>
  C5, as stated, fails. The claim: a write of \<^verbatim>\<open>selected_country\<close> with a value that is
  neither empty nor listed is ignored. \<^verbatim>\<open>selected_country\<close> is a plain
  \<^verbatim>\<open>solara.reactive\<close>; its \<^verbatim>\<open>set\<close> stores the value, and the state that was valid
  before the write is not valid after it.
\<close>

theorem unlisted_country_is_stored:
  "''Atlantis'' \<noteq> []
   \<and> ''Atlantis'' \<notin> set (all_countries (initial_state\<lparr>all_countries := [''FRA'', ''USA'']\<rparr>))
   \<and> selected_country_valid (initial_state\<lparr>all_countries := [''FRA'', ''USA'']\<rparr>)
   \<and> reactive_set (W_selected_country ''Atlantis'')
        (initial_state\<lparr>all_countries := [''FRA'', ''USA'']\<rparr>, [])
      = (initial_state\<lparr>all_countries := [''FRA'', ''USA''], selected_country := ''Atlantis''\<rparr>,
         [Assigned (W_selected_country ''Atlantis'')])
   \<and> \<not> selected_country_valid
         (fst (reactive_set (W_selected_country ''Atlantis'')
                 (initial_state\<lparr>all_countries := [''FRA'', ''USA'']\<rparr>, [])))"
  by (simp add: selected_country_valid_def initial_state_def)

text \<open>
  C5, amended. A write of \<^verbatim>\<open>selected_country\<close> stores the value, whatever it is, and
  changes no other variable; the selected country is empty or listed after the write
  exactly when the value written is empty or listed.
\<close>

theorem set_selected_country_stores_any_value:
  "reactive_set (W_selected_country v) (s, tr)
     = (s\<lparr>selected_country := v\<rparr>, tr @ [Assigned (W_selected_country v)])
   \<and> selected_country_valid (fst (reactive_set (W_selected_country v) (s, tr)))
     = (v = [] \<or> v \<in> set (all_countries s))"
  by (simp add: selected_country_valid_def)

subsection \<open>The loading flag\<close>

text \<open>
  C3, on the code. The claim: after \<^verbatim>\<open>load_filtered_data\<close> has run with a selected
  country, \<^verbatim>\<open>is_loading\<close> is false on every way out. \<^verbatim>\<open>is_loading.set(True)\<close> and
  \<^verbatim>\<open>get_db_connection()\<close> stand before \<^verbatim>\<open>try\<close>: when the httpfs extension cannot be
  installed, the exception leaves the procedure, \<^verbatim>\<open>finally\<close> is never entered and
  \<^verbatim>\<open>is_loading\<close> stays true.
\<close>

theorem loading_flag_stays_set:
  "load_filtered_data no_extension (initial_state\<lparr>selected_country := ''USA''\<rparr>, [])
   = (Raised (Failure ''httpfs''),
      initial_state\<lparr>selected_country := ''USA'', is_loading := True\<rparr>,
      [Assigned (W_is_loading True), Printed (Querying ''USA'' 0 1000000), Connected 0])"
  by (simp add: load_filtered_data_def no_extension_def initial_state_def
      fresh_connection_def Let_def)

subsection \<open>Connections\<close>

text \<open>
  C4, on the code. The claim: the connection a procedure opens is closed on every way
  out. In \<^verbatim>\<open>load_country_list\<close>, \<^verbatim>\<open>con.close()\<close> is the last statement of the
  \<^verbatim>\<open>try\<close> body and there is no \<^verbatim>\<open>finally\<close>: when the statement raises, the handler
  prints and the connection stays open.
\<close>

theorem failed_listing_leaves_connection_open:
  "load_country_list unreachable_source (initial_state, [])
   = (Finished, initial_state,
      [Printed Loading_country_list, Connected 0, Executed 0 List_countries,
       Printed (Error_loading_countries (Failure ''HTTP''))])
   \<and> open_connections
        (snd (snd (load_country_list unreachable_source (initial_state, [])))) = [0]"
  by (simp add: load_country_list_def unreachable_source_def initial_state_def
      fresh_connection_def open_connections_def Let_def)

text \<open>
  The two other procedures close the connection in \<^verbatim>\<open>finally\<close>, so the same failure
  leaves no connection open there.
\<close>

lemma failed_statement_elsewhere_closes_connection:
  "open_connections
     (snd (snd (update_country_stats unreachable_source
                  (initial_state\<lparr>selected_country := ''USA''\<rparr>, [])))) = []
   \<and> open_connections
       (snd (snd (load_filtered_data unreachable_source
                    (initial_state\<lparr>selected_country := ''USA''\<rparr>, [])))) = []"
  by (simp add: update_country_stats_def load_filtered_data_def unreachable_source_def
      initial_state_def fresh_connection_def open_connections_def quote_def Let_def
      fetch_max_population_def fetch_filtered_cities_def max_population_text_def
      filtered_cities_text_def)

end
